theory Spec2Isabelle
  imports Main "HOL-Library.Word"
begin

section \<open>JavaScript strings and values\<close>

text \<open>
  A JavaScript string is a sequence of 16-bit code units. Literals of the source are
  written \<open>js ''...''\<close>; all of them are ASCII.
\<close>

type_synonym code_unit = "16 word"
type_synonym jsstring = "code_unit list"

definition js :: "string \<Rightarrow> jsstring" where
  "js s = map of_char s"

text \<open>
  \<open>String.prototype.trim\<close> is a built-in of the language, not code of the repository. It
  removes, at both ends, the code units that are WhiteSpace or LineTerminator in
  ECMAScript: TAB, LF, VT, FF, CR, SPACE, NBSP, U+1680, U+2000 to U+200A, U+2028, U+2029,
  U+202F, U+205F, U+3000 and U+FEFF.
\<close>

definition isWhiteSpace :: "code_unit \<Rightarrow> bool" where
  "isWhiteSpace c \<longleftrightarrow>
     c \<in> {0x0009, 0x000A, 0x000B, 0x000C, 0x000D, 0x0020, 0x00A0, 0x1680,
          0x2028, 0x2029, 0x202F, 0x205F, 0x3000, 0xFEFF}
     \<or> (0x2000 \<le> c \<and> c \<le> 0x200A)"

definition trim :: "jsstring \<Rightarrow> jsstring" where
  "trim s = rev (dropWhile isWhiteSpace (rev (dropWhile isWhiteSpace s)))"

text \<open>
  A string is well-formed when every surrogate code unit is part of a pair, a high
  surrogate (U+D800 to U+DBFF) followed by a low one (U+DC00 to U+DFFF);
  \<open>isWellFormed\<close> is \<open>String.prototype.isWellFormed\<close>. The platform converts a string
  argument declared \<open>USVString\<close> by replacing each unpaired surrogate with U+FFFD.
\<close>

definition isHighSurrogate :: "code_unit \<Rightarrow> bool" where
  "isHighSurrogate c \<longleftrightarrow> 0xD800 \<le> c \<and> c \<le> 0xDBFF"

definition isLowSurrogate :: "code_unit \<Rightarrow> bool" where
  "isLowSurrogate c \<longleftrightarrow> 0xDC00 \<le> c \<and> c \<le> 0xDFFF"

fun isWellFormed :: "jsstring \<Rightarrow> bool" where
  "isWellFormed [] = True"
| "isWellFormed [c] = (\<not> isHighSurrogate c \<and> \<not> isLowSurrogate c)"
| "isWellFormed (c # d # cs) =
     (if isHighSurrogate c then isLowSurrogate d \<and> isWellFormed cs
      else \<not> isLowSurrogate c \<and> isWellFormed (d # cs))"

fun toUSVString :: "jsstring \<Rightarrow> jsstring" where
  "toUSVString [] = []"
| "toUSVString [c] = (if isHighSurrogate c \<or> isLowSurrogate c then [0xFFFD] else [c])"
| "toUSVString (c # d # cs) =
     (if isHighSurrogate c
      then (if isLowSurrogate d then c # d # toUSVString cs else 0xFFFD # toUSVString (d # cs))
      else if isLowSurrogate c then 0xFFFD # toUSVString (d # cs)
      else c # toUSVString (d # cs))"

text \<open>
  The surrogate at index \<open>i\<close> of \<open>s\<close> is unpaired: a high surrogate that no low surrogate
  follows, or a low surrogate that no high surrogate precedes.
\<close>

definition unpaired :: "jsstring \<Rightarrow> nat \<Rightarrow> bool" where
  "unpaired s i \<longleftrightarrow>
     (isHighSurrogate (s ! i) \<and> \<not> (Suc i < length s \<and> isLowSurrogate (s ! Suc i)))
     \<or> (isLowSurrogate (s ! i) \<and> \<not> (0 < i \<and> isHighSurrogate (s ! (i - 1))))"

text \<open>
  Values of type \<open>any\<close>: what a decoded response body, and a property read from it, can
  be. \<open>JNum\<close> carries the integers, which is what a status code is; \<open>JNaN\<close> is the one
  falsy number besides zero. An object is the list of its own properties.
\<close>

datatype jsval =
    JUndefined
  | JNull
  | JBool bool
  | JNum int
  | JNaN
  | JStr jsstring
  | JArr "jsval list"
  | JObj "(jsstring \<times> jsval) list"

text \<open>ToBoolean: the falsy values are undefined, null, false, 0, NaN and the empty string.\<close>

fun truthy :: "jsval \<Rightarrow> bool" where
  "truthy JUndefined = False"
| "truthy JNull = False"
| "truthy (JBool b) = b"
| "truthy (JNum n) = (n \<noteq> 0)"
| "truthy JNaN = False"
| "truthy (JStr s) = (s \<noteq> [])"
| "truthy (JArr xs) = True"
| "truthy (JObj ps) = True"

text \<open>The operator \<open>a || b\<close>: the left operand when it is truthy, else the right one.\<close>

definition js_or :: "jsval \<Rightarrow> jsval \<Rightarrow> jsval" where
  "js_or a b = (if truthy a then a else b)"

text \<open>
  The optional property read \<open>v?.k\<close> for a key \<open>k\<close> that no built-in prototype defines
  (the source reads \<open>detail\<close>): undefined on undefined and null, the own property on an
  object, undefined on every other value.
\<close>

fun opt_get :: "jsval \<Rightarrow> jsstring \<Rightarrow> jsval" where
  "opt_get (JObj ps) k = (case map_of ps k of Some v \<Rightarrow> v | None \<Rightarrow> JUndefined)"
| "opt_get v k = JUndefined"

text \<open>\<open>s || d\<close> where \<open>s\<close> is a string or undefined.\<close>

fun or_default :: "jsstring option \<Rightarrow> jsstring \<Rightarrow> jsstring" where
  "or_default None d = d"
| "or_default (Some s) d = (if s = [] then d else s)"

section \<open>The environment\<close>

text \<open>
  What the module reads from outside: the build-time variable \<open>VITE_API_BASE_URL\<close>
  (a string, or undefined), \<open>crypto.randomUUID\<close> (\<open>None\<close> when the function is not
  there, else the string a call returns), \<open>Date.now()\<close>, and the string
  \<open>Math.random().toString(36)\<close>, whose digits are floating-point arithmetic and are
  taken as given. Console output under \<open>import.meta.env.DEV\<close> changes no returned value
  and is not part of the model.
\<close>

record environment =
  VITE_API_BASE_URL :: "jsstring option"
  randomUUID :: "jsstring option"
  Date_now :: int
  Math_random_toString36 :: jsstring

section \<open>client.ts: the Request Gateway\<close>

definition API_BASE_URL :: "environment \<Rightarrow> jsstring" where
  "API_BASE_URL env =
     or_default (map_option trim (VITE_API_BASE_URL env)) (js ''http://localhost:8000'')"

record client_config =
  baseURL :: jsstring
  timeout :: nat

definition apiClient :: "environment \<Rightarrow> client_config" where
  "apiClient env = \<lparr>baseURL = API_BASE_URL env, timeout = 60000\<rparr>"

text \<open>
  A \<open>FormData\<close> object is its entry list, in append order; an entry's value is a string or
  the file entry of a binary object (\<open>Blob\<close>, \<open>File\<close>), which the model leaves opaque as
  \<open>'f\<close>. \<open>FormData.append(name, value)\<close> declares the name and a string value as
  \<open>USVString\<close>, so both are converted before the entry is added.
\<close>

datatype 'f fdvalue = FString jsstring | FBlob 'f

type_synonym 'f formdata = "(jsstring \<times> 'f fdvalue) list"

fun fd_append :: "'f formdata \<Rightarrow> jsstring \<Rightarrow> 'f fdvalue \<Rightarrow> 'f formdata" where
  "fd_append fd name (FString s) = fd @ [(toUSVString name, FString (toUSVString s))]"
| "fd_append fd name (FBlob b) = fd @ [(toUSVString name, FBlob b)]"

text \<open>A request body is a \<open>FormData\<close> object or any other value.\<close>

datatype 'f reqdata = FormData "'f formdata" | Other jsval

fun instanceof_FormData :: "'f reqdata \<Rightarrow> bool" where
  "instanceof_FormData (FormData fd) = True"
| "instanceof_FormData (Other v) = False"

text \<open>
  The request configuration an interceptor sees: the instance's settings and the
  request's own fields (\<open>req_method\<close> is the field \<open>method\<close>). \<open>headers\<close> holds the request's
  headers by property name, as spelled.
\<close>

record 'f request_config = client_config +
  url :: "jsstring option"
  req_method :: "jsstring option"
  headers :: "jsstring \<rightharpoonup> jsval"
  data :: "'f reqdata"

record axios_response =
  resp_status :: int
  resp_data :: jsval

text \<open>\<open>AxiosError\<close>: \<open>message\<close> is a string, \<open>response\<close> is optional.\<close>

record axios_error =
  err_message :: jsstring
  err_response :: "axios_response option"

record normalized_error =
  status :: jsval
  message :: jsval

text \<open>The request interceptor (client.ts, lines 12 to 27).\<close>

definition request_interceptor :: "'f request_config \<Rightarrow> 'f request_config" where
  "request_interceptor config =
     (if instanceof_FormData (data config)
      then config\<lparr>headers := (headers config)(js ''Content-Type'' := None)\<rparr>
      else config)"

text \<open>The object built by the response error handler (client.ts, lines 34 to 40).\<close>

definition normalizedError :: "axios_error \<Rightarrow> normalized_error" where
  "normalizedError error =
     \<lparr>status =
        js_or (case err_response error of None \<Rightarrow> JUndefined | Some r \<Rightarrow> JNum (resp_status r))
              (JNum 500),
      message =
        js_or (js_or (opt_get (case err_response error of None \<Rightarrow> JUndefined
                                | Some r \<Rightarrow> resp_data r) (js ''detail''))
                     (JStr (err_message error)))
              (JStr (js ''Unknown API error''))\<rparr>"

text \<open>
  The response interceptor (client.ts, lines 31 to 51) on the outcome of the transport:
  a response is returned as it is, an error is rejected as the normalized error.
\<close>

fun response_interceptor ::
  "axios_error + axios_response \<Rightarrow> normalized_error + axios_response" where
  "response_interceptor (Inr response) = Inr response"
| "response_interceptor (Inl error) = Inl (normalizedError error)"

text \<open>
  The transport (axios's adapter) is a parameter: it maps the configuration it is called
  with to a response or an error.
\<close>

type_synonym 'f transport = "'f request_config \<Rightarrow> axios_error + axios_response"

text \<open>
  Axios is a library the client is built on, not code of the repository. The model keeps
  what axios 1.x does to the headers of the one shape of call the source makes,
  \<open>apiClient.post(url, formData, {headers: {"Content-Type": ct}})\<close>. Before the request
  interceptor runs, the instance's default header \<open>Accept\<close> is merged with the caller's
  headers. After it, \<open>dispatchRequest\<close> leaves a \<open>FormData\<close> body alone and, the method being
  \<open>post\<close>, sets \<open>Content-Type\<close> to \<open>application/x-www-form-urlencoded\<close> unless the header is
  set (\<open>setContentType(value, false)\<close>); then it calls the adapter.
\<close>

definition axios_default_headers :: "jsstring \<rightharpoonup> jsval" where
  "axios_default_headers = [js ''Accept'' \<mapsto> JStr (js ''application/json, text/plain, */*'')]"

definition setContentType_default :: "(jsstring \<rightharpoonup> jsval) \<Rightarrow> (jsstring \<rightharpoonup> jsval)" where
  "setContentType_default hs =
     (case hs (js ''Content-Type'') of
        None \<Rightarrow> hs(js ''Content-Type'' \<mapsto> JStr (js ''application/x-www-form-urlencoded''))
      | Some v \<Rightarrow>
          if v = JUndefined
          then hs(js ''Content-Type'' \<mapsto> JStr (js ''application/x-www-form-urlencoded''))
          else hs)"

definition apiClient_post ::
  "'f transport \<Rightarrow> environment \<Rightarrow> jsstring \<Rightarrow> 'f formdata \<Rightarrow> jsval
     \<Rightarrow> normalized_error + axios_response" where
  "apiClient_post T env u formData ct =
     (let config = request_interceptor
            \<lparr>baseURL = baseURL (apiClient env), timeout = timeout (apiClient env),
             url = Some u, req_method = Some (js ''post''),
             headers = axios_default_headers(js ''Content-Type'' \<mapsto> ct),
             data = FormData formData\<rparr>
      in response_interceptor (T (config\<lparr>headers := setContentType_default (headers config)\<rparr>)))"

text \<open>
  The error normalization as the specification words it, by presence: the response's
  status when there is a response, the body's \<open>detail\<close> field when the body has one.
\<close>

fun carried_detail :: "jsval \<Rightarrow> jsval option" where
  "carried_detail (JObj ps) = map_of ps (js ''detail'')"
| "carried_detail v = None"

definition spec_normalizedError :: "axios_error \<Rightarrow> normalized_error" where
  "spec_normalizedError error =
     \<lparr>status = (case err_response error of Some r \<Rightarrow> JNum (resp_status r) | None \<Rightarrow> JNum 500),
      message =
        (case (case err_response error of Some r \<Rightarrow> carried_detail (resp_data r) | None \<Rightarrow> None) of
           Some d \<Rightarrow> d
         | None \<Rightarrow> if err_message error \<noteq> [] then JStr (err_message error)
                   else JStr (js ''Unknown API error''))\<rparr>"

section \<open>The session identifier and the request builders\<close>

text \<open>\<open>localStorage\<close> is a map from keys to strings; \<open>getItem\<close> gives null (\<open>None\<close>) for a missing key.\<close>

type_synonym storage = "jsstring \<rightharpoonup> jsstring"

definition getItem :: "storage \<Rightarrow> jsstring \<Rightarrow> jsstring option" where
  "getItem st k = st k"

definition setItem :: "storage \<Rightarrow> jsstring \<Rightarrow> jsstring \<Rightarrow> storage" where
  "setItem st k v = st(k \<mapsto> v)"

definition SESSION_KEY :: jsstring where
  "SESSION_KEY = js ''agrigpt_session_id''"

text \<open>\<open>n.toString(36)\<close> for an integer \<open>n\<close>: digits \<open>0-9a-z\<close>, a minus sign when negative.\<close>

definition digit36 :: "nat \<Rightarrow> code_unit" where
  "digit36 d = (if d < 10 then of_nat (48 + d) else of_nat (87 + d))"

fun digits36 :: "nat \<Rightarrow> jsstring" where
  "digits36 n = (if n < 36 then [digit36 n] else digits36 (n div 36) @ [digit36 (n mod 36)])"

declare digits36.simps [simp del]

definition toString36 :: "int \<Rightarrow> jsstring" where
  "toString36 i = (if i < 0 then 0x2D # digits36 (nat (- i)) else digits36 (nat i))"

text \<open>\<open>s.substr(n)\<close> for \<open>n \<ge> 0\<close>: the string from index \<open>n\<close> on, empty when \<open>s\<close> is shorter.\<close>

definition substr :: "jsstring \<Rightarrow> nat \<Rightarrow> jsstring" where
  "substr s n = drop n s"

text \<open>The right-hand side of the assignment in \<open>getSessionId\<close> (line 155).\<close>

definition newSessionId :: "environment \<Rightarrow> jsstring" where
  "newSessionId env =
     (case randomUUID env of
        Some uuid \<Rightarrow> uuid
      | None \<Rightarrow> toString36 (Date_now env) @ substr (Math_random_toString36 env) 2)"

text \<open>\<open>getSessionId\<close> returns the identifier and the storage it leaves. \<open>!sid\<close> holds for null
  and for the empty string.\<close>

definition getSessionId :: "environment \<Rightarrow> storage \<Rightarrow> jsstring \<times> storage" where
  "getSessionId env st =
     (case getItem st SESSION_KEY of
        None \<Rightarrow> (let sid = newSessionId env in (sid, setItem st SESSION_KEY sid))
      | Some sid \<Rightarrow>
          if sid = [] then (let sid' = newSessionId env in (sid', setItem st SESSION_KEY sid'))
          else (sid, st))"

text \<open>
  A \<open>FormDataPayload\<close> object is the list of its properties in enumeration order; a value
  is a string, a binary object, undefined or null.
\<close>

datatype 'f pvalue = PUndefined | PNull | PString jsstring | PBlob 'f

type_synonym 'f FormDataPayload = "(jsstring \<times> 'f pvalue) list"

text \<open>The callback of \<open>forEach\<close> in \<open>buildFormData\<close> (lines 165 to 169).\<close>

fun append_field :: "'f formdata \<Rightarrow> jsstring \<times> 'f pvalue \<Rightarrow> 'f formdata" where
  "append_field fd (key, PUndefined) = fd"
| "append_field fd (key, PNull) = fd"
| "append_field fd (key, PString s) = fd_append fd key (FString s)"
| "append_field fd (key, PBlob b) = fd_append fd key (FBlob b)"

definition buildFormData ::
  "environment \<Rightarrow> storage \<Rightarrow> 'f FormDataPayload \<Rightarrow> 'f formdata \<times> storage" where
  "buildFormData env st payload =
     (let (sid, st') = getSessionId env st;
          fd = fd_append [] (js ''session_id'') (FString sid)
      in (foldl append_field fd payload, st'))"

text \<open>Property assignment \<open>obj.k = v\<close>: replaces the property, or adds it at the end.\<close>

fun set_prop :: "(jsstring \<times> 'v) list \<Rightarrow> jsstring \<Rightarrow> 'v \<Rightarrow> (jsstring \<times> 'v) list" where
  "set_prop [] k v = [(k, v)]"
| "set_prop ((k', v') # ps) k v =
     (if k' = k then (k, v) # ps else (k', v') # set_prop ps k v)"

text \<open>
  The builders return what the promise settles to (\<open>Inl\<close> a rejection, \<open>Inr\<close> the value)
  and the storage they leave.
\<close>

definition postFormData ::
  "'f transport \<Rightarrow> environment \<Rightarrow> jsstring \<Rightarrow> 'f formdata \<Rightarrow> normalized_error + jsval" where
  "postFormData T env u formData =
     (case apiClient_post T env u formData (JStr (js ''multipart/form-data'')) of
        Inl e \<Rightarrow> Inl e
      | Inr res \<Rightarrow> Inr (resp_data res))"

definition askText ::
  "'f transport \<Rightarrow> environment \<Rightarrow> storage \<Rightarrow> jsstring \<Rightarrow> (normalized_error + jsval) \<times> storage" where
  "askText T env st query =
     (let (payload, st') = buildFormData env st [(js ''query'', PString (trim query))]
      in (postFormData T env (js ''/ask/text'') payload, st'))"

definition askImage ::
  "'f transport \<Rightarrow> environment \<Rightarrow> storage \<Rightarrow> 'f \<Rightarrow> (normalized_error + jsval) \<times> storage" where
  "askImage T env st img =
     (let (payload, st') = buildFormData env st [(js ''file'', PBlob img)]
      in (postFormData T env (js ''/ask/image'') payload, st'))"

definition askChat ::
  "'f transport \<Rightarrow> environment \<Rightarrow> storage \<Rightarrow> jsstring \<Rightarrow> 'f option
     \<Rightarrow> (normalized_error + jsval) \<times> storage" where
  "askChat T env st query img =
     (let payloadObj = [(js ''query'', PString (trim query))];
          payloadObj' = (case img of
                           Some f \<Rightarrow> set_prop payloadObj (js ''file'') (PBlob f)
                         | None \<Rightarrow> payloadObj);
          (payload, st') = buildFormData env st payloadObj'
      in (postFormData T env (js ''/ask/chat'') payload, st'))"

text \<open>
  The request the transport is called with for a post of the form data \<open>fd\<close> to \<open>u\<close>, and
  what the caller receives for the transport's outcome.
\<close>

definition multipart_request :: "environment \<Rightarrow> jsstring \<Rightarrow> 'f formdata \<Rightarrow> 'f request_config" where
  "multipart_request env u fd =
     \<lparr>baseURL = API_BASE_URL env, timeout = 60000, url = Some u,
      req_method = Some (js ''post''),
      headers = [js ''Accept'' \<mapsto> JStr (js ''application/json, text/plain, */*''),
                 js ''Content-Type'' \<mapsto> JStr (js ''application/x-www-form-urlencoded'')],
      data = FormData fd\<rparr>"

text \<open>
  The entry value a payload value contributes: none when the value is absent, the
  converted string for a string.
\<close>

fun present :: "'f pvalue \<Rightarrow> 'f fdvalue option" where
  "present PUndefined = None"
| "present PNull = None"
| "present (PString s) = Some (FString (toUSVString s))"
| "present (PBlob b) = Some (FBlob b)"

definition settled :: "axios_error + axios_response \<Rightarrow> normalized_error + jsval" where
  "settled out = (case out of Inl e \<Rightarrow> Inl (normalizedError e) | Inr res \<Rightarrow> Inr (resp_data res))"

section \<open>Properties of the built-ins and of the builders\<close>

lemma trim_eq_Nil_iff: "trim s = [] \<longleftrightarrow> (\<forall>c\<in>set s. isWhiteSpace c)"
proof
  assume "trim s = []"
  then have "dropWhile isWhiteSpace (rev (dropWhile isWhiteSpace s)) = []"
    by (simp add: trim_def)
  then have "\<forall>c\<in>set (rev (dropWhile isWhiteSpace s)). isWhiteSpace c"
    by (simp only: dropWhile_eq_Nil_conv)
  then have all: "\<forall>c\<in>set (dropWhile isWhiteSpace s). isWhiteSpace c"
    by (simp only: set_rev)
  show "\<forall>c\<in>set s. isWhiteSpace c"
  proof (cases "dropWhile isWhiteSpace s")
    case Nil
    then show ?thesis by simp
  next
    case (Cons x xs)
    then have "\<not> isWhiteSpace x"
      by (simp add: dropWhile_eq_Cons_conv)
    moreover from all Cons have "isWhiteSpace x" by simp
    ultimately show ?thesis by simp
  qed
next
  assume "\<forall>c\<in>set s. isWhiteSpace c"
  then show "trim s = []"
    by (auto simp: trim_def dest: set_dropWhileD)
qed

lemma rev_dropWhile_takeWhile:
  "rev (dropWhile P (rev xs)) @ rev (takeWhile P (rev xs)) = xs"
proof -
  have "rev (rev (dropWhile P (rev xs)) @ rev (takeWhile P (rev xs))) = rev xs"
    by simp
  then show ?thesis
    by (simp only: rev_is_rev_conv)
qed

lemma trim_suffix:
  "dropWhile isWhiteSpace q
     = trim q @ rev (takeWhile isWhiteSpace (rev (dropWhile isWhiteSpace q)))"
  unfolding trim_def by (rule rev_dropWhile_takeWhile [symmetric])

lemma trim_decompose:
  "\<exists>l r. q = l @ trim q @ r \<and> (\<forall>c\<in>set l. isWhiteSpace c) \<and> (\<forall>c\<in>set r. isWhiteSpace c)"
proof -
  let ?l = "takeWhile isWhiteSpace q"
  let ?r = "rev (takeWhile isWhiteSpace (rev (dropWhile isWhiteSpace q)))"
  have "q = ?l @ dropWhile isWhiteSpace q"
    by simp
  also have "\<dots> = ?l @ trim q @ ?r"
    using trim_suffix [of q] by simp
  finally have "q = ?l @ trim q @ ?r" .
  moreover have "\<forall>c\<in>set ?l. isWhiteSpace c"
    by (auto dest: set_takeWhileD)
  moreover have "\<forall>c\<in>set ?r. isWhiteSpace c"
    by (auto dest: set_takeWhileD)
  ultimately show ?thesis by blast
qed

lemma trim_ends:
  assumes "trim q \<noteq> []"
  shows "\<not> isWhiteSpace (hd (trim q)) \<and> \<not> isWhiteSpace (last (trim q))"
proof -
  let ?m = "dropWhile isWhiteSpace q"
  let ?d = "dropWhile isWhiteSpace (rev ?m)"
  from assms have d: "?d \<noteq> []"
    by (simp only: trim_def rev_is_Nil_conv not_False_eq_True)
  then have "\<not> isWhiteSpace (hd ?d)"
    by (rule hd_dropWhile)
  moreover have "last (trim q) = hd ?d"
    unfolding trim_def by (rule last_rev)
  ultimately have l: "\<not> isWhiteSpace (last (trim q))"
    by simp
  have "hd ?m = hd (trim q @ rev (takeWhile isWhiteSpace (rev ?m)))"
    using trim_suffix [of q] by simp
  with assms have h: "hd ?m = hd (trim q)"
    by simp
  from assms trim_suffix [of q] have "?m \<noteq> []"
    by (metis append_is_Nil_conv)
  then have "\<not> isWhiteSpace (hd ?m)"
    by (rule hd_dropWhile)
  with h l show ?thesis by simp
qed

lemma not_surrogate_numeral:
  "c < 0xD800 \<Longrightarrow> \<not> isHighSurrogate c \<and> \<not> isLowSurrogate c"
  by (auto simp: isHighSurrogate_def isLowSurrogate_def word_le_nat_alt word_less_nat_alt)

lemma unat_of_char: "unat (of_char a :: code_unit) < 256"
proof -
  have n: "(of_char a :: nat) < 256"
    by simp
  have "(256::nat) \<le> 2 ^ LENGTH(16)"
    by simp
  with n have m: "(of_char a :: nat) < 2 ^ LENGTH(16)"
    by (rule less_le_trans)
  have "unat (of_nat (of_char a) :: code_unit) = of_char a mod 2 ^ LENGTH(16)"
    by (rule unat_of_nat)
  also from m have "\<dots> = of_char a"
    by (rule mod_less)
  finally have "unat (of_char a :: code_unit) = of_char a"
    by (simp only: of_nat_of_char)
  with n show ?thesis
    by (simp only:)
qed

lemma isWhiteSpace_not_surrogate:
  "isWhiteSpace c \<Longrightarrow> \<not> isHighSurrogate c \<and> \<not> isLowSurrogate c"
  unfolding isWhiteSpace_def isHighSurrogate_def isLowSurrogate_def
  by (auto simp: word_le_nat_alt)

lemma isWellFormed_Cons:
  "\<not> isHighSurrogate c \<Longrightarrow> \<not> isLowSurrogate c \<Longrightarrow> isWellFormed (c # s) = isWellFormed s"
  by (cases s) simp_all

lemma isWellFormed_prefix:
  "\<forall>c\<in>set l. \<not> isHighSurrogate c \<and> \<not> isLowSurrogate c
     \<Longrightarrow> isWellFormed (l @ s) = isWellFormed s"
  by (induction l) (simp_all add: isWellFormed_Cons)

lemma isWellFormed_suffix:
  "\<forall>c\<in>set r. \<not> isHighSurrogate c \<and> \<not> isLowSurrogate c
     \<Longrightarrow> isWellFormed (s @ r) = isWellFormed s"
proof (induction s rule: isWellFormed.induct)
  case 1
  then show ?case
    using isWellFormed_prefix [of r "[]"] by simp
next
  case (2 c)
  then have r: "isWellFormed r"
    using isWellFormed_prefix [of r "[]"] by simp
  show ?case
  proof (cases r)
    case Nil
    then show ?thesis by simp
  next
    case (Cons d ds)
    with 2 have "\<not> isLowSurrogate d" by simp
    with r Cons show ?thesis by auto
  qed
next
  case (3 c d cs)
  then show ?case by simp
qed

lemma isWellFormed_trim: "isWellFormed q \<Longrightarrow> isWellFormed (trim q)"
proof -
  assume q: "isWellFormed q"
  obtain l r where d: "q = l @ trim q @ r"
    and l: "\<forall>c\<in>set l. isWhiteSpace c" and r: "\<forall>c\<in>set r. isWhiteSpace c"
    using trim_decompose [of q] by blast
  from l have "isWellFormed (l @ trim q @ r) = isWellFormed (trim q @ r)"
    by (intro isWellFormed_prefix) (simp add: isWhiteSpace_not_surrogate)
  moreover from r have "isWellFormed (trim q @ r) = isWellFormed (trim q)"
    by (intro isWellFormed_suffix) (simp add: isWhiteSpace_not_surrogate)
  ultimately show ?thesis
    using q d by simp
qed

lemma toUSVString_wellFormed: "isWellFormed s \<Longrightarrow> toUSVString s = s"
  by (induction s rule: toUSVString.induct) (auto split: if_splits)

lemma high_not_low: "isHighSurrogate c \<Longrightarrow> \<not> isLowSurrogate c"
  by (auto simp: isHighSurrogate_def isLowSurrogate_def word_le_nat_alt)

lemma length_toUSVString: "length (toUSVString s) = length s"
  by (induction s rule: toUSVString.induct) auto

lemma unpaired_0:
  "unpaired (c # s) 0 \<longleftrightarrow>
     (isHighSurrogate c \<and> \<not> (s \<noteq> [] \<and> isLowSurrogate (hd s))) \<or> isLowSurrogate c"
  by (cases s) (auto simp: unpaired_def)

lemma toUSVString_nth:
  "i < length s \<Longrightarrow> toUSVString s ! i = (if unpaired s i then 0xFFFD else s ! i)"
proof (induction s arbitrary: i rule: toUSVString.induct)
  case 1
  then show ?case by simp
next
  case (2 c)
  then show ?case by (auto simp: unpaired_0)
next
  case (3 c d cs)
  show ?case
  proof (cases i)
    case 0
    then show ?thesis
      by (auto simp: unpaired_0 dest: high_not_low)
  next
    case (Suc j)
    note i = Suc
    show ?thesis
    proof (cases "isHighSurrogate c \<and> isLowSurrogate d")
      case True
      show ?thesis
      proof (cases j)
        case 0
        with True i show ?thesis
          by (auto simp: unpaired_def dest: high_not_low)
      next
        case (Suc k)
        with 3 i True have "toUSVString cs ! k = (if unpaired cs k then 0xFFFD else cs ! k)"
          by simp
        moreover have "unpaired (c # d # cs) (Suc (Suc k)) = unpaired cs k"
          using True by (cases k) (auto simp: unpaired_def dest: high_not_low)
        ultimately show ?thesis
          using True i Suc by simp
      qed
    next
      case False
      from 3 i have j: "j < length (d # cs)" by simp
      have ih: "toUSVString (d # cs) ! j = (if unpaired (d # cs) j then 0xFFFD else (d # cs) ! j)"
      proof (cases "isHighSurrogate c")
        case True
        with False have nl: "\<not> isLowSurrogate d" by simp
        from True nl j show ?thesis by (rule "3.IH"(2))
      next
        case nh: False
        show ?thesis
        proof (cases "isLowSurrogate c")
          case True
          from nh True j show ?thesis by (rule "3.IH"(3))
        next
          case False
          from nh False j show ?thesis by (rule "3.IH"(4))
        qed
      qed
      have u: "unpaired (c # d # cs) (Suc j) = unpaired (d # cs) j"
        using False by (cases j) (auto simp: unpaired_def dest: high_not_low)
      have "toUSVString (c # d # cs) ! Suc j = toUSVString (d # cs) ! j"
        using False by auto
      with ih u i show ?thesis by simp
    qed
  qed
qed

lemma toUSVString_ascii: "toUSVString (js s) = js s"
proof -
  have "\<forall>c\<in>set (js s). \<not> isHighSurrogate c \<and> \<not> isLowSurrogate c"
  proof
    fix c assume "c \<in> set (js s)"
    then obtain a where "c = of_char a"
      by (auto simp: js_def)
    then have "unat c < 256"
      by (simp only: unat_of_char)
    then have "c < 0xD800"
      by (simp add: word_less_nat_alt)
    then show "\<not> isHighSurrogate c \<and> \<not> isLowSurrogate c"
      by (rule not_surrogate_numeral)
  qed
  then have "isWellFormed (js s)"
    using isWellFormed_prefix [of "js s" "[]"] by simp
  then show ?thesis
    by (rule toUSVString_wellFormed)
qed

lemma foldl_append_field:
  "foldl append_field fd payload =
     fd @ List.map_filter (\<lambda>(k, v). map_option (Pair (toUSVString k)) (present v)) payload"
proof (induction payload arbitrary: fd)
  case Nil
  then show ?case by (simp add: List.map_filter_simps)
next
  case (Cons p ps)
  obtain k v where p: "p = (k, v)" by (cases p)
  show ?case
    by (cases v) (simp_all add: p Cons.IH List.map_filter_simps)
qed

lemma apiClient_post_multipart:
  "apiClient_post T env u fd ct = response_interceptor (T (multipart_request env u fd))"
proof -
  have "setContentType_default ((axios_default_headers(js ''Content-Type'' \<mapsto> ct))
            (js ''Content-Type'' := None))
      = [js ''Accept'' \<mapsto> JStr (js ''application/json, text/plain, */*''),
         js ''Content-Type'' \<mapsto> JStr (js ''application/x-www-form-urlencoded'')]"
    by (simp add: setContentType_default_def axios_default_headers_def)
  then show ?thesis
    by (simp add: apiClient_post_def request_interceptor_def multipart_request_def
        apiClient_def Let_def)
qed

lemma postFormData_settled:
  "postFormData T env u fd = settled (T (multipart_request env u fd))"
  by (cases "T (multipart_request env u fd)")
     (simp_all add: postFormData_def apiClient_post_multipart settled_def)

lemma buildFormData_eq:
  "buildFormData env st payload =
     ((js ''session_id'', FString (toUSVString (fst (getSessionId env st))))
        # List.map_filter (\<lambda>(k, v). map_option (Pair (toUSVString k)) (present v)) payload,
      snd (getSessionId env st))"
  by (simp add: buildFormData_def foldl_append_field toUSVString_ascii split: prod.splits)

lemma askText_eq:
  "askText T env st q =
     (settled (T (multipart_request env (js ''/ask/text'')
        [(js ''session_id'', FString (toUSVString (fst (getSessionId env st)))),
         (js ''query'', FString (toUSVString (trim q)))])),
      snd (getSessionId env st))"
  by (simp add: askText_def buildFormData_eq postFormData_settled List.map_filter_simps
      toUSVString_ascii)

lemma askImage_eq:
  "askImage T env st f =
     (settled (T (multipart_request env (js ''/ask/image'')
        [(js ''session_id'', FString (toUSVString (fst (getSessionId env st)))),
         (js ''file'', FBlob f)])),
      snd (getSessionId env st))"
  by (simp add: askImage_def buildFormData_eq postFormData_settled List.map_filter_simps
      toUSVString_ascii)

lemma query_neq_file: "js ''query'' \<noteq> js ''file''"
  by (simp add: js_def)

lemma askChat_eq:
  "askChat T env st q img =
     (settled (T (multipart_request env (js ''/ask/chat'')
        ([(js ''session_id'', FString (toUSVString (fst (getSessionId env st)))),
          (js ''query'', FString (toUSVString (trim q)))]
         @ (case img of None \<Rightarrow> [] | Some f \<Rightarrow> [(js ''file'', FBlob f)])))),
      snd (getSessionId env st))"
  by (cases img)
     (simp_all add: askChat_def buildFormData_eq postFormData_settled List.map_filter_simps
        query_neq_file toUSVString_ascii)

lemma digits36_nonempty: "digits36 n \<noteq> []"
  by (subst digits36.simps) simp

lemma toString36_nonempty: "toString36 i \<noteq> []"
  by (simp add: toString36_def digits36_nonempty)

lemma newSessionId_nonempty:
  "\<forall>u. randomUUID env = Some u \<longrightarrow> u \<noteq> [] \<Longrightarrow> newSessionId env \<noteq> []"
  by (simp add: newSessionId_def toString36_nonempty split: option.splits)

section \<open>Base URL\<close>



section \<open>Error normalization\<close>

lemma normalizedError_status:
  "status (normalizedError error) =
     JNum (case err_response error of None \<Rightarrow> 500
           | Some r \<Rightarrow> if resp_status r = 0 then 500 else resp_status r)"
  by (simp add: normalizedError_def js_or_def split: option.splits)

lemma normalizedError_message:
  "message (normalizedError error) =
     (let d = opt_get (case err_response error of None \<Rightarrow> JUndefined | Some r \<Rightarrow> resp_data r)
                (js ''detail'')
      in if truthy d then d
         else if err_message error \<noteq> [] then JStr (err_message error)
         else JStr (js ''Unknown API error''))"
  by (simp add: normalizedError_def js_or_def Let_def)

lemma settled_Inl: "settled out = Inl ne \<Longrightarrow> \<exists>error. out = Inl error \<and> ne = normalizedError error"
  by (cases out) (auto simp: settled_def)

text \<open>
  C1, as stated, reads the status and the detail field by presence. A response with
  status 0 whose body carries the detail field \<open>""\<close> is normalized to status 500 and to the
  failure's own description, not to status 0 and the empty detail.
\<close>

theorem normalization_by_presence_counterexample:
  "normalizedError
     \<lparr>err_message = js ''Request failed with status code 0'',
      err_response = Some \<lparr>resp_status = 0, resp_data = JObj [(js ''detail'', JStr [])]\<rparr>\<rparr>
     = \<lparr>status = JNum 500, message = JStr (js ''Request failed with status code 0'')\<rparr>
   \<and> spec_normalizedError
     \<lparr>err_message = js ''Request failed with status code 0'',
      err_response = Some \<lparr>resp_status = 0, resp_data = JObj [(js ''detail'', JStr [])]\<rparr>\<rparr>
     = \<lparr>status = JNum 0, message = JStr []\<rparr>
   \<and> response_interceptor (Inl
     \<lparr>err_message = js ''Request failed with status code 0'',
      err_response = Some \<lparr>resp_status = 0, resp_data = JObj [(js ''detail'', JStr [])]\<rparr>\<rparr>)
     \<noteq> Inl (spec_normalizedError
     \<lparr>err_message = js ''Request failed with status code 0'',
      err_response = Some \<lparr>resp_status = 0, resp_data = JObj [(js ''detail'', JStr [])]\<rparr>\<rparr>)"
  by (simp add: normalizedError_def spec_normalizedError_def js_or_def js_def)

text \<open>
  C1, amended. Every failure the response interceptor handles is rejected as the normalized
  error, and a rejection that reaches a caller of a builder is such a normalized error,
  never the transport's error object. Its status is the response's status code when a
  response exists and the code is not zero, and 500 otherwise. Its message is the detail
  field of the response body when that value is truthy, else the failure's description
  when it is not empty, else \<open>Unknown API error\<close>.
\<close>

theorem response_error_normalized:
  "response_interceptor (Inl error) = Inl (normalizedError error)
   \<and> status (normalizedError error) =
       JNum (case err_response error of None \<Rightarrow> 500
             | Some r \<Rightarrow> if resp_status r = 0 then 500 else resp_status r)
   \<and> message (normalizedError error) =
       (let d = opt_get (case err_response error of None \<Rightarrow> JUndefined | Some r \<Rightarrow> resp_data r)
                  (js ''detail'')
        in if truthy d then d
           else if err_message error \<noteq> [] then JStr (err_message error)
           else JStr (js ''Unknown API error''))
   \<and> (T (multipart_request env u fd) = Inl error
        \<longrightarrow> postFormData T env u fd = Inl (normalizedError error))
   \<and> (postFormData T env u fd = Inl ne
        \<longrightarrow> (\<exists>e. T (multipart_request env u fd) = Inl e \<and> ne = normalizedError e))
   \<and> (fst (askText T env st q) = Inl ne \<longrightarrow> (\<exists>e. ne = normalizedError e))
   \<and> (fst (askImage T env st f) = Inl ne \<longrightarrow> (\<exists>e. ne = normalizedError e))
   \<and> (fst (askChat T env st q img) = Inl ne \<longrightarrow> (\<exists>e. ne = normalizedError e))"
proof -
  have 1: "response_interceptor (Inl error) = Inl (normalizedError error)"
    by simp
  have 3: "T (multipart_request env u fd) = Inl error
        \<longrightarrow> postFormData T env u fd = Inl (normalizedError error)"
    by (simp add: postFormData_settled settled_def)
  have 4: "postFormData T env u fd = Inl ne
        \<longrightarrow> (\<exists>e. T (multipart_request env u fd) = Inl e \<and> ne = normalizedError e)"
    by (auto simp: postFormData_settled dest: settled_Inl)
  have 5: "fst (askText T env st q) = Inl ne \<longrightarrow> (\<exists>e. ne = normalizedError e)"
    by (auto simp: askText_eq dest: settled_Inl)
  have 6: "fst (askImage T env st f) = Inl ne \<longrightarrow> (\<exists>e. ne = normalizedError e)"
    by (auto simp: askImage_eq dest: settled_Inl)
  have 7: "fst (askChat T env st q img) = Inl ne \<longrightarrow> (\<exists>e. ne = normalizedError e)"
    by (auto simp: askChat_eq dest: settled_Inl)
  from 1 normalizedError_status [of error] normalizedError_message [of error] 3 4 5 6 7
  show ?thesis by (intro conjI)
qed

theorem response_error_normalized_witness:
  "response_interceptor (Inl
      \<lparr>err_message = js ''Request failed with status code 422'',
       err_response = Some \<lparr>resp_status = 422,
                             resp_data = JObj [(js ''detail'', JStr (js ''bad image''))]\<rparr>\<rparr>)
     = Inl \<lparr>status = JNum 422, message = JStr (js ''bad image'')\<rparr>
   \<and> response_interceptor (Inl \<lparr>err_message = js ''Network Error'', err_response = None\<rparr>)
     = Inl \<lparr>status = JNum 500, message = JStr (js ''Network Error'')\<rparr>
   \<and> response_interceptor (Inl
      \<lparr>err_message = js ''Request failed with status code 503'',
       err_response = Some \<lparr>resp_status = 503, resp_data = JStr []\<rparr>\<rparr>)
     = Inl \<lparr>status = JNum 503, message = JStr (js ''Request failed with status code 503'')\<rparr>
   \<and> postFormData (\<lambda>c. Inl \<lparr>err_message = js ''Network Error'', err_response = None\<rparr>)
        \<lparr>VITE_API_BASE_URL = None, randomUUID = None, Date_now = 0,
         Math_random_toString36 = js ''0.5''\<rparr>
        (js ''/ask/image'') [(js ''file'', FBlob (7::nat))]
     = Inl \<lparr>status = JNum 500, message = JStr (js ''Network Error'')\<rparr>
   \<and> fst (askText (\<lambda>c :: nat request_config.
                      Inl \<lparr>err_message = js ''Network Error'', err_response = None\<rparr>)
        \<lparr>VITE_API_BASE_URL = None, randomUUID = None, Date_now = 0,
         Math_random_toString36 = js ''0.5''\<rparr> Map.empty (js ''hi''))
     = Inl \<lparr>status = JNum 500, message = JStr (js ''Network Error'')\<rparr>
   \<and> fst (askImage (\<lambda>c. Inl \<lparr>err_message = js ''Network Error'', err_response = None\<rparr>)
        \<lparr>VITE_API_BASE_URL = None, randomUUID = None, Date_now = 0,
         Math_random_toString36 = js ''0.5''\<rparr> Map.empty (7::nat))
     = Inl \<lparr>status = JNum 500, message = JStr (js ''Network Error'')\<rparr>
   \<and> fst (askChat (\<lambda>c. Inl \<lparr>err_message = js ''Network Error'', err_response = None\<rparr>)
        \<lparr>VITE_API_BASE_URL = None, randomUUID = None, Date_now = 0,
         Math_random_toString36 = js ''0.5''\<rparr> Map.empty (js ''hi'') (Some (7::nat)))
     = Inl \<lparr>status = JNum 500, message = JStr (js ''Network Error'')\<rparr>
   \<and> (\<exists>e. \<lparr>status = JNum 500, message = JStr (js ''Network Error'')\<rparr> = normalizedError e)"
proof -
  let ?e1 = "\<lparr>err_message = js ''Request failed with status code 422'',
       err_response = Some \<lparr>resp_status = 422,
                             resp_data = JObj [(js ''detail'', JStr (js ''bad image''))]\<rparr>\<rparr>"
  let ?e2 = "\<lparr>err_message = js ''Network Error'', err_response = None\<rparr>"
  let ?e3 = "\<lparr>err_message = js ''Request failed with status code 503'',
       err_response = Some \<lparr>resp_status = 503, resp_data = JStr []\<rparr>\<rparr>"
  let ?env = "\<lparr>VITE_API_BASE_URL = None, randomUUID = None, Date_now = 0,
         Math_random_toString36 = js ''0.5''\<rparr>"
  let ?T = "\<lambda>c :: nat request_config. (Inl ?e2 :: axios_error + axios_response)"
  let ?ne = "\<lparr>status = JNum 500, message = JStr (js ''Network Error'')\<rparr>"
  let ?u = "js ''/ask/image''"
  let ?fd = "[(js ''file'', FBlob (7::nat))]"
  have eq: "\<And>n. n = \<lparr>status = status n, message = message n\<rparr>"
    by simp
  have 1: "response_interceptor (Inl ?e1) = Inl \<lparr>status = JNum 422, message = JStr (js ''bad image'')\<rparr>"
    using response_error_normalized [of ?e1 ?T ?env ?u ?fd ?ne Map.empty "js ''hi''" 7 "Some 7"]
      eq [of "normalizedError ?e1"]
    by (simp add: js_def)
  have 3: "response_interceptor (Inl ?e3)
      = Inl \<lparr>status = JNum 503, message = JStr (js ''Request failed with status code 503'')\<rparr>"
    using response_error_normalized [of ?e3 ?T ?env ?u ?fd ?ne Map.empty "js ''hi''" 7 "Some 7"]
      eq [of "normalizedError ?e3"]
    by (simp add: js_def)
  note w = response_error_normalized [of ?e2 ?T ?env ?u ?fd ?ne Map.empty "js ''hi''" 7 "Some 7"]
  have n2: "normalizedError ?e2 = ?ne"
    using w eq [of "normalizedError ?e2"] by (simp add: js_def)
  from w n2 have 2: "response_interceptor (Inl ?e2) = Inl ?ne"
    by simp
  have "?T (multipart_request ?env ?u ?fd) = Inl ?e2"
    by simp
  with w n2 have p: "postFormData ?T ?env ?u ?fd = Inl ?ne"
    by simp
  with w have ex: "\<exists>e. ?T (multipart_request ?env ?u ?fd) = Inl e \<and> ?ne = normalizedError e"
    by blast
  have t: "fst (askText ?T ?env Map.empty (js ''hi'')) = Inl ?ne"
    by (simp add: askText_eq settled_def n2)
  have i: "fst (askImage ?T ?env Map.empty 7) = Inl ?ne"
    by (simp add: askImage_eq settled_def n2)
  have c: "fst (askChat ?T ?env Map.empty (js ''hi'') (Some 7)) = Inl ?ne"
    by (simp add: askChat_eq settled_def n2)
  from w t have "\<exists>e. ?ne = normalizedError e"
    by blast
  with 1 2 3 p t i c show ?thesis
    by (intro conjI)
qed

text \<open>
  C9. Normalization selects by truthiness: when the detail field is present in the response
  body but falsy, the message is the failure's description (or the fixed fallback when
  that is empty too); when a response exists with status code 0, the status is 500.
\<close>

theorem normalization_by_truthiness:
  "(err_response error = Some r \<and> resp_data r = JObj ps
      \<and> map_of ps (js ''detail'') = Some d \<and> \<not> truthy d
      \<longrightarrow> message (normalizedError error) =
            (if err_message error \<noteq> [] then JStr (err_message error)
             else JStr (js ''Unknown API error'')))
   \<and> (err_response error = Some r \<and> resp_status r = 0
      \<longrightarrow> status (normalizedError error) = JNum 500)"
  by (simp add: normalizedError_def js_or_def)

theorem normalization_by_truthiness_witness:
  "message (normalizedError
      \<lparr>err_message = js ''Request failed with status code 400'',
       err_response = Some \<lparr>resp_status = 400, resp_data = JObj [(js ''detail'', JStr [])]\<rparr>\<rparr>)
     = JStr (js ''Request failed with status code 400'')
   \<and> status (normalizedError
      \<lparr>err_message = js ''Request failed with status code 0'',
       err_response = Some \<lparr>resp_status = 0, resp_data = JNull\<rparr>\<rparr>)
     = JNum 500"
proof -
  let ?r1 = "\<lparr>resp_status = 400, resp_data = JObj [(js ''detail'', JStr [])]\<rparr>"
  let ?e1 = "\<lparr>err_message = js ''Request failed with status code 400'', err_response = Some ?r1\<rparr>"
  let ?r2 = "\<lparr>resp_status = 0, resp_data = JNull\<rparr>"
  let ?e2 = "\<lparr>err_message = js ''Request failed with status code 0'', err_response = Some ?r2\<rparr>"
  have 1: "message (normalizedError ?e1) = JStr (js ''Request failed with status code 400'')"
    using normalization_by_truthiness [of ?e1 ?r1 "[(js ''detail'', JStr [])]" "JStr []"]
    by (simp add: js_def)
  have 2: "status (normalizedError ?e2) = JNum 500"
    using normalization_by_truthiness [of ?e2 ?r2 "[]" JNull]
    by simp
  from 1 2 show ?thesis by simp
qed

section \<open>Header correction\<close>




section \<open>Session identifier\<close>

text \<open>
  C4, as stated, returns every stored value unchanged. The empty string stored under the
  key is a value that \<open>getItem\<close> returns, and \<open>getSessionId\<close> answers with a new identifier.
\<close>

theorem stored_empty_id_counterexample:
  "getItem [SESSION_KEY \<mapsto> []] SESSION_KEY = Some []
   \<and> fst (getSessionId
        \<lparr>VITE_API_BASE_URL = None,
         randomUUID = Some (js ''123e4567-e89b-42d3-a456-426614174000''),
         Date_now = 1700000000000, Math_random_toString36 = js ''0.4fzyo82mvyr''\<rparr>
        [SESSION_KEY \<mapsto> []])
     = js ''123e4567-e89b-42d3-a456-426614174000''
   \<and> js ''123e4567-e89b-42d3-a456-426614174000'' \<noteq> []"
  by (simp add: getSessionId_def getItem_def newSessionId_def Let_def js_def)

text \<open>
  C4, amended. Two calls of \<open>getSessionId\<close> in sequence, the second on the storage the
  first one left, return the same string, and the second call leaves the storage as it
  found it (the UUID generator, when there is one, returns a non-empty string). A
  non-empty value already stored under the key is returned unchanged, and the storage is
  not written. An empty string stored under the key is treated as absent: the call does
  what it does on the storage without the entry, generating a new identifier, storing it
  under the key and returning it.
\<close>

theorem getSessionId_stable:
  assumes "\<forall>u. randomUUID env = Some u \<longrightarrow> u \<noteq> []"
  shows "fst (getSessionId env' (snd (getSessionId env st))) = fst (getSessionId env st)
    \<and> snd (getSessionId env' (snd (getSessionId env st))) = snd (getSessionId env st)
    \<and> (\<forall>v. getItem st SESSION_KEY = Some v \<and> v \<noteq> [] \<longrightarrow> getSessionId env st = (v, st))
    \<and> (getItem st SESSION_KEY = Some [] \<longrightarrow>
          getSessionId env st = getSessionId env (st(SESSION_KEY := None))
          \<and> getSessionId env st = (newSessionId env, setItem st SESSION_KEY (newSessionId env))
          \<and> fst (getSessionId env st) \<noteq> [])"
proof -
  from assms have n: "newSessionId env \<noteq> []"
    by (rule newSessionId_nonempty)
  have present: "\<And>e s v. getItem s SESSION_KEY = Some v \<Longrightarrow> v \<noteq> [] \<Longrightarrow> getSessionId e s = (v, s)"
    by (simp add: getSessionId_def)
  have stored: "getItem (snd (getSessionId env st)) SESSION_KEY = Some (fst (getSessionId env st))"
    by (simp add: getSessionId_def getItem_def setItem_def Let_def split: option.splits)
  have nonempty: "fst (getSessionId env st) \<noteq> []"
    using n by (simp add: getSessionId_def Let_def split: option.splits)
  have empty: "getItem st SESSION_KEY = Some [] \<longrightarrow>
          getSessionId env st = getSessionId env (st(SESSION_KEY := None))
          \<and> getSessionId env st = (newSessionId env, setItem st SESSION_KEY (newSessionId env))
          \<and> fst (getSessionId env st) \<noteq> []"
    using n by (simp add: getSessionId_def getItem_def setItem_def Let_def)
  have twice: "getSessionId env' (snd (getSessionId env st))
      = (fst (getSessionId env st), snd (getSessionId env st))"
    using stored nonempty by (rule present)
  from twice have "fst (getSessionId env' (snd (getSessionId env st))) = fst (getSessionId env st)"
    and "snd (getSessionId env' (snd (getSessionId env st))) = snd (getSessionId env st)"
    by simp_all
  moreover from present
  have "\<forall>v. getItem st SESSION_KEY = Some v \<and> v \<noteq> [] \<longrightarrow> getSessionId env st = (v, st)"
    by blast
  ultimately show ?thesis
    using empty by (intro conjI)
qed

theorem getSessionId_stable_witness:
  "fst (getSessionId
        \<lparr>VITE_API_BASE_URL = None,
         randomUUID = Some (js ''9b2e1c7a-5d4f-4a3b-8c6d-0e1f2a3b4c5d''),
         Date_now = 1700000000500, Math_random_toString36 = js ''0.9''\<rparr>
        (snd (getSessionId
           \<lparr>VITE_API_BASE_URL = None,
            randomUUID = Some (js ''123e4567-e89b-42d3-a456-426614174000''),
            Date_now = 1700000000000, Math_random_toString36 = js ''0.4fzyo82mvyr''\<rparr>
           Map.empty)))
     = js ''123e4567-e89b-42d3-a456-426614174000''
   \<and> fst (getSessionId
        \<lparr>VITE_API_BASE_URL = None,
         randomUUID = Some (js ''123e4567-e89b-42d3-a456-426614174000''),
         Date_now = 1700000000000, Math_random_toString36 = js ''0.4fzyo82mvyr''\<rparr>
        [SESSION_KEY \<mapsto> js ''abc'']) = js ''abc''
   \<and> fst (getSessionId
        \<lparr>VITE_API_BASE_URL = None,
         randomUUID = Some (js ''123e4567-e89b-42d3-a456-426614174000''),
         Date_now = 1700000000000, Math_random_toString36 = js ''0.4fzyo82mvyr''\<rparr>
        [SESSION_KEY \<mapsto> []]) = js ''123e4567-e89b-42d3-a456-426614174000''
   \<and> getItem (snd (getSessionId
        \<lparr>VITE_API_BASE_URL = None,
         randomUUID = Some (js ''123e4567-e89b-42d3-a456-426614174000''),
         Date_now = 1700000000000, Math_random_toString36 = js ''0.4fzyo82mvyr''\<rparr>
        [SESSION_KEY \<mapsto> []])) SESSION_KEY
     = Some (js ''123e4567-e89b-42d3-a456-426614174000'')"
proof -
  let ?e1 = "\<lparr>VITE_API_BASE_URL = None,
            randomUUID = Some (js ''123e4567-e89b-42d3-a456-426614174000''),
            Date_now = 1700000000000, Math_random_toString36 = js ''0.4fzyo82mvyr''\<rparr>"
  let ?e2 = "\<lparr>VITE_API_BASE_URL = None,
         randomUUID = Some (js ''9b2e1c7a-5d4f-4a3b-8c6d-0e1f2a3b4c5d''),
         Date_now = 1700000000500, Math_random_toString36 = js ''0.9''\<rparr>"
  have h: "\<forall>u. randomUUID ?e1 = Some u \<longrightarrow> u \<noteq> []"
    by (simp add: js_def)
  have first: "fst (getSessionId ?e1 Map.empty) = js ''123e4567-e89b-42d3-a456-426614174000''"
    by (simp add: getSessionId_def getItem_def newSessionId_def Let_def)
  have g: "getItem [SESSION_KEY \<mapsto> js ''abc''] SESSION_KEY = Some (js ''abc'') \<and> js ''abc'' \<noteq> []"
    by (simp add: getItem_def js_def)
  from getSessionId_stable [OF h, of ?e2 Map.empty] first
  have 1: "fst (getSessionId ?e2 (snd (getSessionId ?e1 Map.empty)))
      = js ''123e4567-e89b-42d3-a456-426614174000''"
    by simp
  from getSessionId_stable [OF h, of ?e2 "[SESSION_KEY \<mapsto> js ''abc'']"] g
  have 2: "getSessionId ?e1 [SESSION_KEY \<mapsto> js ''abc'']
      = (js ''abc'', [SESSION_KEY \<mapsto> js ''abc''])"
    by blast
  have g0: "getItem [SESSION_KEY \<mapsto> []] SESSION_KEY = Some []"
    by (simp add: getItem_def)
  from getSessionId_stable [OF h, of ?e2 "[SESSION_KEY \<mapsto> []]"] g0
  have 3: "getSessionId ?e1 [SESSION_KEY \<mapsto> []]
      = (newSessionId ?e1, setItem [SESSION_KEY \<mapsto> []] SESSION_KEY (newSessionId ?e1))"
    by blast
  have n1: "newSessionId ?e1 = js ''123e4567-e89b-42d3-a456-426614174000''"
    by (simp add: newSessionId_def)
  from 1 2 show ?thesis
    unfolding 3 n1 by (simp add: getItem_def setItem_def)
qed

text \<open>
  C5. When nothing is stored under the key, \<open>getSessionId\<close> generates a new identifier,
  the UUID when \<open>crypto.randomUUID\<close> is there and otherwise the base-36 timestamp followed by
  the digits of the pseudo-random number, stores it under the same key, leaves every other
  key alone, and returns exactly the stored value.
\<close>

theorem getSessionId_creates:
  "getItem st SESSION_KEY = None \<longrightarrow>
     getSessionId env st = (newSessionId env, setItem st SESSION_KEY (newSessionId env))
     \<and> getItem (snd (getSessionId env st)) SESSION_KEY = Some (fst (getSessionId env st))
     \<and> (\<forall>k. k \<noteq> SESSION_KEY \<longrightarrow> getItem (snd (getSessionId env st)) k = getItem st k)
     \<and> (\<forall>uuid. randomUUID env = Some uuid \<longrightarrow> fst (getSessionId env st) = uuid)
     \<and> (randomUUID env = None \<longrightarrow>
          fst (getSessionId env st)
            = toString36 (Date_now env) @ substr (Math_random_toString36 env) 2)"
  by (simp add: getSessionId_def getItem_def setItem_def newSessionId_def Let_def)

theorem getSessionId_creates_witness:
  "fst (getSessionId
        \<lparr>VITE_API_BASE_URL = None,
         randomUUID = Some (js ''123e4567-e89b-42d3-a456-426614174000''),
         Date_now = 1700000000000, Math_random_toString36 = js ''0.4fzyo82mvyr''\<rparr>
        Map.empty) = js ''123e4567-e89b-42d3-a456-426614174000''
   \<and> fst (getSessionId
        \<lparr>VITE_API_BASE_URL = None, randomUUID = None,
         Date_now = 1700000000000, Math_random_toString36 = js ''0.4fzyo82mvyr''\<rparr>
        Map.empty) = js ''loyw3v284fzyo82mvyr''
   \<and> getItem (snd (getSessionId
        \<lparr>VITE_API_BASE_URL = None, randomUUID = None,
         Date_now = 1700000000000, Math_random_toString36 = js ''0.4fzyo82mvyr''\<rparr>
        Map.empty)) SESSION_KEY = Some (js ''loyw3v284fzyo82mvyr'')"
proof -
  let ?e1 = "\<lparr>VITE_API_BASE_URL = None,
         randomUUID = Some (js ''123e4567-e89b-42d3-a456-426614174000''),
         Date_now = 1700000000000, Math_random_toString36 = js ''0.4fzyo82mvyr''\<rparr>"
  let ?e2 = "\<lparr>VITE_API_BASE_URL = None, randomUUID = None,
         Date_now = 1700000000000, Math_random_toString36 = js ''0.4fzyo82mvyr''\<rparr>"
  have g: "getItem Map.empty SESSION_KEY = None"
    by (simp add: getItem_def)
  have t: "toString36 1700000000000 = js ''loyw3v28''"
    by (simp add: toString36_def digits36.simps digit36_def js_def)
  have s: "substr (js ''0.4fzyo82mvyr'') 2 = js ''4fzyo82mvyr''"
    by (simp add: substr_def js_def)
  have a: "js ''loyw3v28'' @ js ''4fzyo82mvyr'' = js ''loyw3v284fzyo82mvyr''"
    by (simp add: js_def)
  from getSessionId_creates [of Map.empty ?e1] g
  have 1: "fst (getSessionId ?e1 Map.empty) = js ''123e4567-e89b-42d3-a456-426614174000''"
    by (simp add: newSessionId_def)
  note c = getSessionId_creates [of Map.empty ?e2, THEN mp, OF g]
  from c have 3: "getItem (snd (getSessionId ?e2 Map.empty)) SESSION_KEY
              = Some (fst (getSessionId ?e2 Map.empty))"
    by blast
  from c have "randomUUID ?e2 = None \<longrightarrow>
      fst (getSessionId ?e2 Map.empty)
        = toString36 (Date_now ?e2) @ substr (Math_random_toString36 ?e2) 2"
    by blast
  with t s a have 2: "fst (getSessionId ?e2 Map.empty) = js ''loyw3v284fzyo82mvyr''"
    by simp
  from 1 2 3 show ?thesis by simp
qed

section \<open>Payload composition\<close>

lemma set_present_fields:
  "set (List.map_filter (\<lambda>(k, v). map_option (Pair (toUSVString k)) (present v)) payload)
     = {(k', w). \<exists>k v. (k, v) \<in> set payload \<and> k' = toUSVString k \<and> present v = Some w}"
proof (induction payload)
  case Nil
  then show ?case by (simp add: List.map_filter_simps)
next
  case (Cons p ps)
  obtain k v where p: "p = (k, v)" by (cases p)
  show ?case
    by (cases "present v") (auto simp: p Cons.IH List.map_filter_simps)
qed

text \<open>
  C3, as stated, submits the trimmed query itself for every query string. A query that
  is one unpaired surrogate, U+D83D, is left as it is by \<open>trim\<close>, and the query field the
  transport receives is U+FFFD: a transport that answers with the query field it was
  called with answers U+FFFD.
\<close>

theorem unpaired_surrogate_query_counterexample:
  "trim [0xD83D] = [0xD83D]
   \<and> fst (askChat
      (\<lambda>c :: nat request_config.
         Inr \<lparr>resp_status = 200,
              resp_data = (case data c of
                             FormData fd \<Rightarrow>
                               (case map_of fd (js ''query'') of
                                  Some (FString s) \<Rightarrow> JStr s
                                | Some (FBlob b) \<Rightarrow> JNull
                                | None \<Rightarrow> JNull)
                           | Other v \<Rightarrow> JNull)\<rparr>)
      \<lparr>VITE_API_BASE_URL = None,
       randomUUID = Some (js ''123e4567-e89b-42d3-a456-426614174000''),
       Date_now = 1700000000000, Math_random_toString36 = js ''0.4fzyo82mvyr''\<rparr>
      Map.empty [0xD83D] None)
     = Inr (JStr [0xFFFD])
   \<and> [0xFFFD] \<noteq> [0xD83D :: code_unit]"
proof -
  have t: "trim [0xD83D] = [0xD83D]"
    by (simp add: trim_def isWhiteSpace_def)
  have u: "toUSVString [0xD83D] = [0xFFFD]"
    by (simp add: isHighSurrogate_def)
  have n: "js ''session_id'' \<noteq> js ''query''"
    by (simp add: js_def)
  from n show ?thesis
    unfolding askChat_eq t u by (simp add: t settled_def multipart_request_def)
qed

text \<open>
  C3, amended. \<open>askChat\<close> without an image submits the session identifier and the query
  field, and no file field; with an image it submits the file field bound to that image
  as well. The value of the query field is the query with its leading and trailing
  whitespace removed and each unpaired surrogate replaced by U+FFFD: for a well-formed
  query it is the trimmed query itself. What trimming removes at both ends is whitespace
  only, and what remains neither starts nor ends with whitespace.
\<close>

theorem askChat_payload:
  "askChat T env st q None =
     (settled (T (multipart_request env (js ''/ask/chat'')
        [(js ''session_id'', FString (toUSVString (fst (getSessionId env st)))),
         (js ''query'', FString (toUSVString (trim q)))])),
      snd (getSessionId env st))
   \<and> askChat T env st q (Some f) =
     (settled (T (multipart_request env (js ''/ask/chat'')
        [(js ''session_id'', FString (toUSVString (fst (getSessionId env st)))),
         (js ''query'', FString (toUSVString (trim q))),
         (js ''file'', FBlob f)])),
      snd (getSessionId env st))
   \<and> length (toUSVString (trim q)) = length (trim q)
   \<and> (\<forall>i<length (trim q).
        toUSVString (trim q) ! i = (if unpaired (trim q) i then 0xFFFD else trim q ! i))
   \<and> (isWellFormed q \<longrightarrow> toUSVString (trim q) = trim q)
   \<and> (\<exists>l r. q = l @ trim q @ r \<and> (\<forall>c\<in>set l. isWhiteSpace c) \<and> (\<forall>c\<in>set r. isWhiteSpace c))
   \<and> (trim q \<noteq> [] \<longrightarrow> \<not> isWhiteSpace (hd (trim q)) \<and> \<not> isWhiteSpace (last (trim q)))"
proof -
  have 1: "askChat T env st q None =
     (settled (T (multipart_request env (js ''/ask/chat'')
        [(js ''session_id'', FString (toUSVString (fst (getSessionId env st)))),
         (js ''query'', FString (toUSVString (trim q)))])),
      snd (getSessionId env st))"
    by (simp add: askChat_eq)
  have 2: "askChat T env st q (Some f) =
     (settled (T (multipart_request env (js ''/ask/chat'')
        [(js ''session_id'', FString (toUSVString (fst (getSessionId env st)))),
         (js ''query'', FString (toUSVString (trim q))),
         (js ''file'', FBlob f)])),
      snd (getSessionId env st))"
    by (simp add: askChat_eq)
  have 3: "isWellFormed q \<longrightarrow> toUSVString (trim q) = trim q"
    by (simp add: isWellFormed_trim toUSVString_wellFormed)
  have 4: "trim q \<noteq> [] \<longrightarrow> \<not> isWhiteSpace (hd (trim q)) \<and> \<not> isWhiteSpace (last (trim q))"
    using trim_ends [of q] by blast
  have 5: "\<forall>i<length (trim q).
        toUSVString (trim q) ! i = (if unpaired (trim q) i then 0xFFFD else trim q ! i)"
    by (simp add: toUSVString_nth)
  from 1 2 length_toUSVString [of "trim q"] 5 3 trim_decompose [of q] 4 show ?thesis
    by (intro conjI)
qed

theorem askChat_payload_witness:
  "fst (askChat
      (\<lambda>c. if data c = FormData
                  [(js ''session_id'', FString (js ''123e4567-e89b-42d3-a456-426614174000'')),
                   (js ''query'', FString (js ''hello''))]
            then Inr \<lparr>resp_status = 200, resp_data = JObj [(js ''analysis'', JStr (js ''ok''))]\<rparr>
            else Inl \<lparr>err_message = js ''Network Error'', err_response = None\<rparr>)
      \<lparr>VITE_API_BASE_URL = None,
       randomUUID = Some (js ''123e4567-e89b-42d3-a456-426614174000''),
       Date_now = 1700000000000, Math_random_toString36 = js ''0.4fzyo82mvyr''\<rparr>
      Map.empty (js ''  hello  '') (None :: nat option))
     = Inr (JObj [(js ''analysis'', JStr (js ''ok''))])
   \<and> fst (askChat
      (\<lambda>c. if data c = FormData
                  [(js ''session_id'', FString (js ''123e4567-e89b-42d3-a456-426614174000'')),
                   (js ''query'', FString (js ''hi'')),
                   (js ''file'', FBlob 7)]
            then Inr \<lparr>resp_status = 200, resp_data = JObj [(js ''analysis'', JStr (js ''ok''))]\<rparr>
            else Inl \<lparr>err_message = js ''Network Error'', err_response = None\<rparr>)
      \<lparr>VITE_API_BASE_URL = None,
       randomUUID = Some (js ''123e4567-e89b-42d3-a456-426614174000''),
       Date_now = 1700000000000, Math_random_toString36 = js ''0.4fzyo82mvyr''\<rparr>
      Map.empty (js ''hi'') (Some (7::nat)))
     = Inr (JObj [(js ''analysis'', JStr (js ''ok''))])
   \<and> trim (js ''  hello  '') = js ''hello''
   \<and> \<not> isWhiteSpace (hd (js ''hello'')) \<and> \<not> isWhiteSpace (last (js ''hello''))"
proof -
  let ?env = "\<lparr>VITE_API_BASE_URL = None,
       randomUUID = Some (js ''123e4567-e89b-42d3-a456-426614174000''),
       Date_now = 1700000000000, Math_random_toString36 = js ''0.4fzyo82mvyr''\<rparr>"
  let ?ok = "\<lparr>resp_status = 200, resp_data = JObj [(js ''analysis'', JStr (js ''ok''))]\<rparr>"
  let ?err = "\<lparr>err_message = js ''Network Error'', err_response = None\<rparr>"
  let ?T1 = "\<lambda>c :: nat request_config. if data c = FormData
                  [(js ''session_id'', FString (js ''123e4567-e89b-42d3-a456-426614174000'')),
                   (js ''query'', FString (js ''hello''))]
            then Inr ?ok else Inl ?err"
  let ?T2 = "\<lambda>c :: nat request_config. if data c = FormData
                  [(js ''session_id'', FString (js ''123e4567-e89b-42d3-a456-426614174000'')),
                   (js ''query'', FString (js ''hi'')),
                   (js ''file'', FBlob 7)]
            then Inr ?ok else Inl ?err"
  have sid: "fst (getSessionId ?env Map.empty) = js ''123e4567-e89b-42d3-a456-426614174000''"
    by (simp add: getSessionId_def getItem_def newSessionId_def Let_def)
  have t1: "trim (js ''  hello  '') = js ''hello''"
    by (simp add: trim_def isWhiteSpace_def js_def)
  have t2: "trim (js ''hi'') = js ''hi''"
    by (simp add: trim_def isWhiteSpace_def js_def)
  have wf1: "isWellFormed (js ''  hello  '')"
    by (simp add: js_def isHighSurrogate_def isLowSurrogate_def)
  have wf2: "isWellFormed (js ''hi'')"
    by (simp add: js_def isHighSurrogate_def isLowSurrogate_def)
  note w1 = askChat_payload [of ?T1 ?env Map.empty "js ''  hello  ''" 7]
  note w2 = askChat_payload [of ?T2 ?env Map.empty "js ''hi''" 7]
  note a = w1 [THEN conjunct1]
  note b = w2 [THEN conjunct2, THEN conjunct1]
  from w1 wf1 have "toUSVString (trim (js ''  hello  '')) = trim (js ''  hello  '')"
    by blast
  then have u1: "toUSVString (js ''hello'') = js ''hello''"
    unfolding t1 .
  from w2 wf2 have "toUSVString (trim (js ''hi'')) = trim (js ''hi'')"
    by blast
  then have u2: "toUSVString (js ''hi'') = js ''hi''"
    unfolding t2 .
  have us: "toUSVString (js ''123e4567-e89b-42d3-a456-426614174000'')
      = js ''123e4567-e89b-42d3-a456-426614174000''"
    by (rule toUSVString_ascii)
  from a sid t1 u1 us have 1: "fst (askChat ?T1 ?env Map.empty (js ''  hello  '') None)
      = Inr (JObj [(js ''analysis'', JStr (js ''ok''))])"
    by (simp add: multipart_request_def settled_def)
  from b sid t2 u2 us have 2: "fst (askChat ?T2 ?env Map.empty (js ''hi'') (Some 7))
      = Inr (JObj [(js ''analysis'', JStr (js ''ok''))])"
    by (simp add: multipart_request_def settled_def)
  have ne: "trim (js ''  hello  '') \<noteq> []"
    unfolding t1 by (simp add: js_def)
  note c = askChat_payload [of ?T1 ?env Map.empty "js ''  hello  ''" 7,
      THEN conjunct2, THEN conjunct2, THEN conjunct2, THEN conjunct2, THEN conjunct2,
      THEN conjunct2, THEN mp, OF ne]
  from c have 3: "\<not> isWhiteSpace (hd (js ''hello'')) \<and> \<not> isWhiteSpace (last (js ''hello''))"
    unfolding t1 .
  from 1 2 t1 3 show ?thesis
    by (intro conjI) simp_all
qed

text \<open>
  C6, as stated, has the \<open>session_id\<close> field hold the identifier that the store returns.
  When the string stored under the key is the unpaired surrogate U+D83D, \<open>getSessionId\<close>
  returns it and the \<open>session_id\<close> field of the form data is U+FFFD.
\<close>

theorem unpaired_surrogate_session_id_counterexample:
  "fst (getSessionId
        \<lparr>VITE_API_BASE_URL = None,
         randomUUID = Some (js ''123e4567-e89b-42d3-a456-426614174000''),
         Date_now = 1700000000000, Math_random_toString36 = js ''0.4fzyo82mvyr''\<rparr>
        [SESSION_KEY \<mapsto> [0xD83D]]) = [0xD83D]
   \<and> fst (buildFormData
        \<lparr>VITE_API_BASE_URL = None,
         randomUUID = Some (js ''123e4567-e89b-42d3-a456-426614174000''),
         Date_now = 1700000000000, Math_random_toString36 = js ''0.4fzyo82mvyr''\<rparr>
        [SESSION_KEY \<mapsto> [0xD83D]] ([] :: nat FormDataPayload))
     = [(js ''session_id'', FString [0xFFFD])]
   \<and> [0xFFFD] \<noteq> [0xD83D :: code_unit]"
proof -
  have g: "getSessionId
        \<lparr>VITE_API_BASE_URL = None,
         randomUUID = Some (js ''123e4567-e89b-42d3-a456-426614174000''),
         Date_now = 1700000000000, Math_random_toString36 = js ''0.4fzyo82mvyr''\<rparr>
        [SESSION_KEY \<mapsto> [0xD83D]] = ([0xD83D], [SESSION_KEY \<mapsto> [0xD83D]])"
    by (simp add: getSessionId_def getItem_def)
  show ?thesis
    unfolding buildFormData_eq g by (simp add: isHighSurrogate_def List.map_filter_simps)
qed

text \<open>
  C6, amended. The form data \<open>buildFormData\<close> builds starts with the \<open>session_id\<close> field,
  which holds the identifier \<open>getSessionId\<close> returns with each unpaired surrogate replaced
  by U+FFFD, the identifier itself when it is well-formed. It is followed by the fields of
  the payload in their order, names and string values converted the same way, without
  those whose value is undefined or null. Each of \<open>askText\<close>, \<open>askImage\<close> and \<open>askChat\<close>
  submits the \<open>session_id\<close> field and its own fields.
\<close>

theorem payload_has_session_id:
  "buildFormData env st payload =
     ((js ''session_id'', FString (toUSVString (fst (getSessionId env st))))
        # List.map_filter (\<lambda>(k, v). map_option (Pair (toUSVString k)) (present v)) payload,
      snd (getSessionId env st))
   \<and> set (fst (buildFormData env st payload)) =
       insert (js ''session_id'', FString (toUSVString (fst (getSessionId env st))))
         {(k', w). \<exists>k v. (k, v) \<in> set payload \<and> k' = toUSVString k \<and> present v = Some w}
   \<and> length (toUSVString (fst (getSessionId env st))) = length (fst (getSessionId env st))
   \<and> (\<forall>i<length (fst (getSessionId env st)).
        toUSVString (fst (getSessionId env st)) ! i
          = (if unpaired (fst (getSessionId env st)) i then 0xFFFD
             else fst (getSessionId env st) ! i))
   \<and> (isWellFormed (fst (getSessionId env st))
        \<longrightarrow> toUSVString (fst (getSessionId env st)) = fst (getSessionId env st))
   \<and> askText T env st q =
     (settled (T (multipart_request env (js ''/ask/text'')
        [(js ''session_id'', FString (toUSVString (fst (getSessionId env st)))),
         (js ''query'', FString (toUSVString (trim q)))])),
      snd (getSessionId env st))
   \<and> askImage T env st f =
     (settled (T (multipart_request env (js ''/ask/image'')
        [(js ''session_id'', FString (toUSVString (fst (getSessionId env st)))),
         (js ''file'', FBlob f)])),
      snd (getSessionId env st))
   \<and> askChat T env st q img =
     (settled (T (multipart_request env (js ''/ask/chat'')
        ([(js ''session_id'', FString (toUSVString (fst (getSessionId env st)))),
          (js ''query'', FString (toUSVString (trim q)))]
         @ (case img of None \<Rightarrow> [] | Some f \<Rightarrow> [(js ''file'', FBlob f)])))),
      snd (getSessionId env st))"
proof -
  have s: "set (fst (buildFormData env st payload)) =
       insert (js ''session_id'', FString (toUSVString (fst (getSessionId env st))))
         {(k', w). \<exists>k v. (k, v) \<in> set payload \<and> k' = toUSVString k \<and> present v = Some w}"
    by (simp add: buildFormData_eq set_present_fields)
  have w: "isWellFormed (fst (getSessionId env st))
        \<longrightarrow> toUSVString (fst (getSessionId env st)) = fst (getSessionId env st)"
    by (simp add: toUSVString_wellFormed)
  have n: "\<forall>i<length (fst (getSessionId env st)).
        toUSVString (fst (getSessionId env st)) ! i
          = (if unpaired (fst (getSessionId env st)) i then 0xFFFD
             else fst (getSessionId env st) ! i)"
    by (simp add: toUSVString_nth)
  from buildFormData_eq [of env st payload] s
    length_toUSVString [of "fst (getSessionId env st)"] n w askText_eq [of T env st q]
    askImage_eq [of T env st f] askChat_eq [of T env st q img]
  show ?thesis by (intro conjI)
qed

theorem payload_has_session_id_witness:
  "fst (buildFormData
      \<lparr>VITE_API_BASE_URL = None,
       randomUUID = Some (js ''123e4567-e89b-42d3-a456-426614174000''),
       Date_now = 1700000000000, Math_random_toString36 = js ''0.4fzyo82mvyr''\<rparr>
      Map.empty
      [(js ''query'', PString (js ''hi'')), (js ''file'', PUndefined), (js ''note'', PNull),
       (js ''photo'', PBlob (7::nat))])
   = [(js ''session_id'', FString (js ''123e4567-e89b-42d3-a456-426614174000'')),
      (js ''query'', FString (js ''hi'')), (js ''photo'', FBlob 7)]"
proof -
  let ?env = "\<lparr>VITE_API_BASE_URL = None,
       randomUUID = Some (js ''123e4567-e89b-42d3-a456-426614174000''),
       Date_now = 1700000000000, Math_random_toString36 = js ''0.4fzyo82mvyr''\<rparr>"
  let ?T = "\<lambda>c :: nat request_config.
     (Inl \<lparr>err_message = js ''Network Error'', err_response = None\<rparr> :: axios_error + axios_response)"
  have sid: "fst (getSessionId ?env Map.empty) = js ''123e4567-e89b-42d3-a456-426614174000''"
    by (simp add: getSessionId_def getItem_def newSessionId_def Let_def)
  have wf: "isWellFormed (js ''123e4567-e89b-42d3-a456-426614174000'')"
    by (simp add: js_def isHighSurrogate_def isLowSurrogate_def)
  note w = payload_has_session_id [of ?env Map.empty
      "[(js ''query'', PString (js ''hi'')), (js ''file'', PUndefined), (js ''note'', PNull),
        (js ''photo'', PBlob (7::nat))]" ?T "[]" 7 None]
  note a = w [THEN conjunct1]
  note b = w [THEN conjunct2, THEN conjunct2, THEN conjunct2, THEN conjunct2, THEN conjunct1]
  from b sid wf have us: "toUSVString (js ''123e4567-e89b-42d3-a456-426614174000'')
      = js ''123e4567-e89b-42d3-a456-426614174000''"
    by simp
  from a show ?thesis
    unfolding sid us by (simp add: List.map_filter_simps toUSVString_ascii)
qed

text \<open>
  C7. A query made of whitespace only, the empty string included, is submitted by
  \<open>askText\<close> and by \<open>askChat\<close> all the same: the transport is called, and the query field it
  receives is the empty string.
\<close>

theorem whitespace_query_submitted:
  "(\<forall>c\<in>set q. isWhiteSpace c) \<longrightarrow>
     askText T env st q =
       (settled (T (multipart_request env (js ''/ask/text'')
          [(js ''session_id'', FString (toUSVString (fst (getSessionId env st)))),
           (js ''query'', FString [])])),
        snd (getSessionId env st))
     \<and> askChat T env st q img =
       (settled (T (multipart_request env (js ''/ask/chat'')
          ([(js ''session_id'', FString (toUSVString (fst (getSessionId env st)))),
            (js ''query'', FString [])]
           @ (case img of None \<Rightarrow> [] | Some f \<Rightarrow> [(js ''file'', FBlob f)])))),
        snd (getSessionId env st))"
proof
  assume "\<forall>c\<in>set q. isWhiteSpace c"
  then have "trim q = []"
    by (simp only: trim_eq_Nil_iff)
  then have "toUSVString (trim q) = []"
    by simp
  with askText_eq [of T env st q] askChat_eq [of T env st q img]
  show "askText T env st q =
       (settled (T (multipart_request env (js ''/ask/text'')
          [(js ''session_id'', FString (toUSVString (fst (getSessionId env st)))),
           (js ''query'', FString [])])),
        snd (getSessionId env st))
     \<and> askChat T env st q img =
       (settled (T (multipart_request env (js ''/ask/chat'')
          ([(js ''session_id'', FString (toUSVString (fst (getSessionId env st)))),
            (js ''query'', FString [])]
           @ (case img of None \<Rightarrow> [] | Some f \<Rightarrow> [(js ''file'', FBlob f)])))),
        snd (getSessionId env st))"
    by simp
qed

theorem whitespace_query_submitted_witness:
  "fst (askText
      (\<lambda>c :: nat request_config. if data c = FormData
                  [(js ''session_id'', FString (js ''123e4567-e89b-42d3-a456-426614174000'')),
                   (js ''query'', FString [])]
            then Inr \<lparr>resp_status = 200, resp_data = JObj [(js ''analysis'', JStr (js ''ok''))]\<rparr>
            else Inl \<lparr>err_message = js ''Network Error'', err_response = None\<rparr>)
      \<lparr>VITE_API_BASE_URL = None,
       randomUUID = Some (js ''123e4567-e89b-42d3-a456-426614174000''),
       Date_now = 1700000000000, Math_random_toString36 = js ''0.4fzyo82mvyr''\<rparr>
      Map.empty [0x20, 0x09, 0x0A, 0x3000])
     = (Inr (JObj [(js ''analysis'', JStr (js ''ok''))]) :: normalized_error + jsval)
   \<and> fst (askChat
      (\<lambda>c. if data c = FormData
                  [(js ''session_id'', FString (js ''123e4567-e89b-42d3-a456-426614174000'')),
                   (js ''query'', FString [])]
            then Inr \<lparr>resp_status = 200, resp_data = JObj [(js ''analysis'', JStr (js ''ok''))]\<rparr>
            else Inl \<lparr>err_message = js ''Network Error'', err_response = None\<rparr>)
      \<lparr>VITE_API_BASE_URL = None,
       randomUUID = Some (js ''123e4567-e89b-42d3-a456-426614174000''),
       Date_now = 1700000000000, Math_random_toString36 = js ''0.4fzyo82mvyr''\<rparr>
      Map.empty [] (None :: nat option))
     = Inr (JObj [(js ''analysis'', JStr (js ''ok''))])"
proof -
  let ?env = "\<lparr>VITE_API_BASE_URL = None,
       randomUUID = Some (js ''123e4567-e89b-42d3-a456-426614174000''),
       Date_now = 1700000000000, Math_random_toString36 = js ''0.4fzyo82mvyr''\<rparr>"
  let ?ok = "\<lparr>resp_status = 200, resp_data = JObj [(js ''analysis'', JStr (js ''ok''))]\<rparr>"
  let ?err = "\<lparr>err_message = js ''Network Error'', err_response = None\<rparr>"
  let ?T = "\<lambda>c :: nat request_config. if data c = FormData
                  [(js ''session_id'', FString (js ''123e4567-e89b-42d3-a456-426614174000'')),
                   (js ''query'', FString [])]
            then Inr ?ok else Inl ?err"
  have sid: "fst (getSessionId ?env Map.empty) = js ''123e4567-e89b-42d3-a456-426614174000''"
    by (simp add: getSessionId_def getItem_def newSessionId_def Let_def)
  have ws: "\<forall>c\<in>set [0x20, 0x09, 0x0A, 0x3000 :: code_unit]. isWhiteSpace c"
    by (simp add: isWhiteSpace_def)
  have ws0: "\<forall>c\<in>set ([] :: jsstring). isWhiteSpace c"
    by simp
  note a = whitespace_query_submitted [of "[0x20, 0x09, 0x0A, 0x3000]" ?T ?env Map.empty None,
      THEN mp, OF ws, THEN conjunct1]
  note b = whitespace_query_submitted [of "[]" ?T ?env Map.empty None,
      THEN mp, OF ws0, THEN conjunct2]
  have us: "toUSVString (js ''123e4567-e89b-42d3-a456-426614174000'')
      = js ''123e4567-e89b-42d3-a456-426614174000''"
    by (rule toUSVString_ascii)
  from a sid us have 1: "fst (askText ?T ?env Map.empty [0x20, 0x09, 0x0A, 0x3000])
      = Inr (JObj [(js ''analysis'', JStr (js ''ok''))])"
    by (simp add: multipart_request_def settled_def)
  from b sid us have 2: "fst (askChat ?T ?env Map.empty [] None)
      = Inr (JObj [(js ''analysis'', JStr (js ''ok''))])"
    by (simp add: multipart_request_def settled_def)
  from 1 2 show ?thesis by simp
qed

section \<open>Round trip\<close>

text \<open>
  C8. The response interceptor returns a response as it is, and when the transport answers
  the submitted request with a response, each builder returns that response's decoded
  body, unchanged.
\<close>

theorem success_round_trip:
  "response_interceptor (Inr res) = Inr res
   \<and> (T (multipart_request env u fd) = Inr res \<longrightarrow> postFormData T env u fd = Inr (resp_data res))
   \<and> (T (multipart_request env (js ''/ask/text'')
          [(js ''session_id'', FString (toUSVString (fst (getSessionId env st)))),
           (js ''query'', FString (toUSVString (trim q)))]) = Inr res
        \<longrightarrow> fst (askText T env st q) = Inr (resp_data res))
   \<and> (T (multipart_request env (js ''/ask/image'')
          [(js ''session_id'', FString (toUSVString (fst (getSessionId env st)))),
           (js ''file'', FBlob f)]) = Inr res
        \<longrightarrow> fst (askImage T env st f) = Inr (resp_data res))
   \<and> (T (multipart_request env (js ''/ask/chat'')
          ([(js ''session_id'', FString (toUSVString (fst (getSessionId env st)))),
            (js ''query'', FString (toUSVString (trim q)))]
           @ (case img of None \<Rightarrow> [] | Some f \<Rightarrow> [(js ''file'', FBlob f)]))) = Inr res
        \<longrightarrow> fst (askChat T env st q img) = Inr (resp_data res))"
  by (simp add: postFormData_settled askText_eq askImage_eq askChat_eq settled_def)

theorem success_round_trip_witness:
  "fst (askText
      (\<lambda>c :: nat request_config. Inr \<lparr>resp_status = 200,
                resp_data = JObj [(js ''analysis'', JStr (js ''ok'')),
                                  (js ''request_id'', JStr (js ''r1''))]\<rparr>)
      \<lparr>VITE_API_BASE_URL = None,
       randomUUID = Some (js ''123e4567-e89b-42d3-a456-426614174000''),
       Date_now = 1700000000000, Math_random_toString36 = js ''0.4fzyo82mvyr''\<rparr>
      Map.empty (js ''what is wrong with my crop''))
     = Inr (JObj [(js ''analysis'', JStr (js ''ok'')), (js ''request_id'', JStr (js ''r1''))])
   \<and> fst (askImage
      (\<lambda>c. Inr \<lparr>resp_status = 200,
                resp_data = JObj [(js ''analysis'', JStr (js ''ok'')),
                                  (js ''request_id'', JStr (js ''r1''))]\<rparr>)
      \<lparr>VITE_API_BASE_URL = None,
       randomUUID = Some (js ''123e4567-e89b-42d3-a456-426614174000''),
       Date_now = 1700000000000, Math_random_toString36 = js ''0.4fzyo82mvyr''\<rparr>
      Map.empty (7::nat))
     = Inr (JObj [(js ''analysis'', JStr (js ''ok'')), (js ''request_id'', JStr (js ''r1''))])
   \<and> fst (askChat
      (\<lambda>c. Inr \<lparr>resp_status = 200,
                resp_data = JObj [(js ''analysis'', JStr (js ''ok'')),
                                  (js ''request_id'', JStr (js ''r1''))]\<rparr>)
      \<lparr>VITE_API_BASE_URL = None,
       randomUUID = Some (js ''123e4567-e89b-42d3-a456-426614174000''),
       Date_now = 1700000000000, Math_random_toString36 = js ''0.4fzyo82mvyr''\<rparr>
      Map.empty (js ''what is wrong with my crop'') (Some (7::nat)))
     = Inr (JObj [(js ''analysis'', JStr (js ''ok'')), (js ''request_id'', JStr (js ''r1''))])
   \<and> postFormData
      (\<lambda>c. Inr \<lparr>resp_status = 200,
                resp_data = JObj [(js ''analysis'', JStr (js ''ok'')),
                                  (js ''request_id'', JStr (js ''r1''))]\<rparr>)
      \<lparr>VITE_API_BASE_URL = None,
       randomUUID = Some (js ''123e4567-e89b-42d3-a456-426614174000''),
       Date_now = 1700000000000, Math_random_toString36 = js ''0.4fzyo82mvyr''\<rparr>
      (js ''/ask/image'') [(js ''file'', FBlob (7::nat))]
     = Inr (JObj [(js ''analysis'', JStr (js ''ok'')), (js ''request_id'', JStr (js ''r1''))])"
proof -
  let ?env = "\<lparr>VITE_API_BASE_URL = None,
       randomUUID = Some (js ''123e4567-e89b-42d3-a456-426614174000''),
       Date_now = 1700000000000, Math_random_toString36 = js ''0.4fzyo82mvyr''\<rparr>"
  let ?res = "\<lparr>resp_status = 200,
                resp_data = JObj [(js ''analysis'', JStr (js ''ok'')),
                                  (js ''request_id'', JStr (js ''r1''))]\<rparr>"
  let ?T = "\<lambda>c :: nat request_config. (Inr ?res :: axios_error + axios_response)"
  note w = success_round_trip [of ?res ?T ?env "js ''/ask/image''" "[(js ''file'', FBlob 7)]"
      Map.empty "js ''what is wrong with my crop''" 7 "Some 7"]
  note p = w [THEN conjunct2, THEN conjunct1, THEN mp, OF refl]
  note t = w [THEN conjunct2, THEN conjunct2, THEN conjunct1, THEN mp, OF refl]
  note i = w [THEN conjunct2, THEN conjunct2, THEN conjunct2, THEN conjunct1, THEN mp, OF refl]
  note c = w [THEN conjunct2, THEN conjunct2, THEN conjunct2, THEN conjunct2, THEN mp, OF refl]
  from t i c p show ?thesis by simp
qed

end
